theory Spec2Isabelle
  imports Main "HOL-Library.Sublist"
begin

section \<open>The rule function-component-definition\<close>

text \<open>
  A shallow embedding of
  \<^verbatim>\<open>packages/plugin-react/src/rules/function-component-definition.js\<close>.
  The host engine, its parser and the component detection are outside the file: the
  syntax tree of a visited function node comes in as a record holding exactly the
  properties the rule reads, the source text as a string, and the answer of
  \<^verbatim>\<open>components.get(node)\<close> as a predicate on nodes.
  A JavaScript exception is the value \<open>Inl TypeError\<close>.
\<close>

subsection \<open>Syntax tree\<close>

datatype js_error = TypeError

text \<open>A node's \<^verbatim>\<open>range\<close>: the offsets of its first character and of the one past its last.\<close>

type_synonym src_range = "nat \<times> nat"

text \<open>The three node types the rule registers a visitor for.\<close>

datatype node_type = FunctionDeclaration | ArrowFunctionExpression | FunctionExpression

text \<open>
  The option strings \<^verbatim>\<open>'function-declaration'\<close>, \<^verbatim>\<open>'arrow-function'\<close> and
  \<^verbatim>\<open>'function-expression'\<close>: the schema's enumeration.
\<close>

datatype variant = function_declaration | arrow_function | function_expression

datatype body_type = BlockStatement | Expression

record body_node =
  b_type :: body_type
  b_range :: src_range

text \<open>An identifier node, of which the rule reads \<^verbatim>\<open>name\<close>.\<close>

record ident_node =
  id_name :: string

text \<open>A type parameter, of which the rule reads whether \<^verbatim>\<open>constraint\<close> is there.\<close>

record type_parameter =
  constraint :: "src_range option"

record type_parameters =
  tp_range :: src_range
  tp_params :: "type_parameter list"

text \<open>
  The \<^verbatim>\<open>id\<close> of a variable declarator: an identifier has a name, a destructuring
  pattern has none; either may carry a type annotation.
\<close>

record binding =
  bind_name :: "string option"
  bind_typeAnnotation :: "src_range option"

text \<open>
  The parent of a function node, by its \<^verbatim>\<open>type\<close>. A \<^verbatim>\<open>VariableDeclarator\<close> carries
  its \<^verbatim>\<open>id\<close> and the range of its own parent, the variable declaration statement
  (\<^verbatim>\<open>node.parent.parent.range\<close>); of every other parent the rule reads the type only.
\<close>

datatype parent_node =
    VariableDeclarator binding src_range
  | ExportDefaultDeclaration
  | Property
  | OtherParent

record fn_node =
  n_type :: node_type
  n_range :: src_range
  n_id :: "ident_node option"
  params :: "src_range list"
  typeParameters :: "type_parameters option"
  returnType :: "src_range option"
  body :: body_node
  parent :: "parent_node option"

subsection \<open>Strings\<close>

text \<open>\<^verbatim>\<open>source.slice(start, end)\<close> for offsets that are not negative.\<close>

definition slice :: "string \<Rightarrow> nat \<Rightarrow> nat \<Rightarrow> string" where
  "slice source start end' = take (end' - start) (drop start source)"

text \<open>
  The first occurrence of a search string: the text in front of it and the text behind it.
\<close>

fun find_first :: "string \<Rightarrow> string \<Rightarrow> string \<Rightarrow> (string \<times> string) option" where
  "find_first pat acc [] = (if pat = [] then Some (rev acc, []) else None)"
| "find_first pat acc (c # cs) =
     (if prefix pat (c # cs) then Some (rev acc, drop (length pat) (c # cs))
      else find_first pat (c # acc) cs)"

text \<open>
  The replacement text of \<^verbatim>\<open>String.prototype.replace\<close> for a search string (no capture
  groups): \<^verbatim>\<open>$$\<close> is a dollar sign, \<^verbatim>\<open>$&\<close> the matched text, a dollar sign and a
  backtick the text in front of the match, a dollar sign and an apostrophe the text behind
  it; every other character stands for itself.
\<close>

fun getSubstitution :: "string \<Rightarrow> string \<Rightarrow> string \<Rightarrow> string \<Rightarrow> string" where
  "getSubstitution matched preceding following [] = []"
| "getSubstitution matched preceding following [c] = [c]"
| "getSubstitution matched preceding following (c # d # r) =
     (if c = CHR ''$'' then
        (if d = CHR ''$'' then CHR ''$'' # getSubstitution matched preceding following r
         else if d = CHR ''&'' then matched @ getSubstitution matched preceding following r
         else if d = CHR 0x60 then preceding @ getSubstitution matched preceding following r
         else if d = CHR 0x27 then following @ getSubstitution matched preceding following r
         else c # getSubstitution matched preceding following (d # r))
      else c # getSubstitution matched preceding following (d # r))"

text \<open>\<^verbatim>\<open>str.replace(pattern, replacement)\<close> with both arguments strings.\<close>

definition replace :: "string \<Rightarrow> string \<Rightarrow> string \<Rightarrow> string" where
  "replace str pat replacement =
     (case find_first pat [] str of
        None \<Rightarrow> str
      | Some (preceding, following) \<Rightarrow>
          preceding @ getSubstitution pat preceding following replacement @ following)"

text \<open>
  \<^verbatim>\<open>buildFunction\<close>: the keys of \<^verbatim>\<open>parts\<close> in insertion order, each replacing the first
  occurrence of its placeholder in the text so far. A value that is \<^verbatim>\<open>undefined\<close>,
  \<^verbatim>\<open>null\<close>, \<^verbatim>\<open>false\<close> or empty is \<open>None\<close> or \<open>Some []\<close> and is replaced by the empty
  string. On an \<^verbatim>\<open>undefined\<close> template the first step calls \<^verbatim>\<open>replace\<close> on
  \<^verbatim>\<open>undefined\<close>, a TypeError.
\<close>

fun buildFunction :: "string option \<Rightarrow> (string \<times> string option) list \<Rightarrow> js_error + string option" where
  "buildFunction template [] = Inr template"
| "buildFunction None (p # ps) = Inl TypeError"
| "buildFunction (Some acc) ((key, v) # ps) =
     buildFunction
       (Some (replace acc (''{'' @ key @ ''}'') (case v of None \<Rightarrow> [] | Some s \<Rightarrow> s))) ps"

definition NAMED_FUNCTION_TEMPLATES :: "variant option \<Rightarrow> string option" where
  "NAMED_FUNCTION_TEMPLATES k =
     (case k of
        None \<Rightarrow> None
      | Some function_declaration \<Rightarrow>
          Some ''function {name}{typeParams}({params}){returnType} {body}''
      | Some arrow_function \<Rightarrow>
          Some ''var {name}{typeAnnotation} = {typeParams}({params}){returnType} => {body}''
      | Some function_expression \<Rightarrow>
          Some ''var {name}{typeAnnotation} = function{typeParams}({params}){returnType} {body}'')"

definition UNNAMED_FUNCTION_TEMPLATES :: "variant option \<Rightarrow> string option" where
  "UNNAMED_FUNCTION_TEMPLATES k =
     (case k of
        None \<Rightarrow> None
      | Some function_declaration \<Rightarrow> None
      | Some function_expression \<Rightarrow> Some ''function{typeParams}({params}){returnType} {body}''
      | Some arrow_function \<Rightarrow> Some ''{typeParams}({params}){returnType} => {body}'')"

definition messages :: "variant option \<Rightarrow> string option" where
  "messages k =
     (case k of
        None \<Rightarrow> None
      | Some function_declaration \<Rightarrow> Some ''Function component is not a function declaration''
      | Some function_expression \<Rightarrow> Some ''Function component is not a function expression''
      | Some arrow_function \<Rightarrow> Some ''Function component is not an arrow function'')"

subsection \<open>Reading the node\<close>

definition hasOneUnconstrainedTypeParam :: "fn_node \<Rightarrow> bool" where
  "hasOneUnconstrainedTypeParam node =
     (case typeParameters node of
        Some tps \<Rightarrow>
          (case tp_params tps of
             [p] \<Rightarrow> constraint p = None
           | _ \<Rightarrow> False)
      | None \<Rightarrow> False)"

text \<open>
  \<^verbatim>\<open>hasName\<close> reads \<^verbatim>\<open>node.parent.type\<close> when the node is no function declaration:
  a TypeError on a node without parent.
\<close>

definition hasName :: "fn_node \<Rightarrow> js_error + bool" where
  "hasName node =
     (if n_type node = FunctionDeclaration then Inr True
      else (case parent node of
              None \<Rightarrow> Inl TypeError
            | Some (VariableDeclarator b r) \<Rightarrow> Inr True
            | Some _ \<Rightarrow> Inr False))"

definition getNodeText :: "src_range option \<Rightarrow> string \<Rightarrow> string option" where
  "getNodeText prop source =
     (case prop of
        None \<Rightarrow> None
      | Some r \<Rightarrow> Some (slice source (fst r) (snd r)))"

text \<open>
  \<^verbatim>\<open>getName\<close>: \<^verbatim>\<open>node.id.name\<close> of a function declaration (a TypeError when \<^verbatim>\<open>id\<close> is
  \<^verbatim>\<open>null\<close>), else \<^verbatim>\<open>hasName(node) && node.parent.id.name\<close>, where \<^verbatim>\<open>false\<close> and a
  missing name are \<open>None\<close>.
\<close>

definition getName :: "fn_node \<Rightarrow> js_error + string option" where
  "getName node =
     (if n_type node = FunctionDeclaration then
        (case n_id node of
           None \<Rightarrow> Inl TypeError
         | Some i \<Rightarrow> Inr (Some (id_name i)))
      else
        (case parent node of
           None \<Rightarrow> Inl TypeError
         | Some (VariableDeclarator b r) \<Rightarrow> Inr (bind_name b)
         | Some _ \<Rightarrow> Inr None))"

definition getParams :: "fn_node \<Rightarrow> string \<Rightarrow> string option" where
  "getParams node source =
     (if params node = [] then None
      else Some (slice source (fst (hd (params node))) (snd (last (params node)))))"

definition getBody :: "fn_node \<Rightarrow> string \<Rightarrow> string" where
  "getBody node source =
     (if b_type (body node) \<noteq> BlockStatement then
        ''{'' @ [CHR 0x0A] @
        (''  return '' @ slice source (fst (b_range (body node))) (snd (b_range (body node)))) @
        [CHR 0x0A] @ ''}''
      else slice source (fst (b_range (body node))) (snd (b_range (body node))))"

definition getTypeAnnotation :: "fn_node \<Rightarrow> string \<Rightarrow> js_error + string option" where
  "getTypeAnnotation node source =
     (case hasName node of
        Inl e \<Rightarrow> Inl e
      | Inr named \<Rightarrow>
          (if \<not> named \<or> n_type node = FunctionDeclaration then Inr None
           else (case parent node of
                   Some (VariableDeclarator b r) \<Rightarrow> Inr (getNodeText (bind_typeAnnotation b) source)
                 | _ \<Rightarrow> Inl TypeError)))"

definition isDefaultExport :: "fn_node \<Rightarrow> bool" where
  "isDefaultExport node =
     (n_type node = FunctionDeclaration \<and>
      (case parent node of
         None \<Rightarrow> False
       | Some p \<Rightarrow> p = ExportDefaultDeclaration))"

definition isUnfixableBecauseOfExport :: "fn_node \<Rightarrow> bool" where
  "isUnfixableBecauseOfExport node = isDefaultExport node"

definition isFunctionExpressionWithName :: "fn_node \<Rightarrow> bool" where
  "isFunctionExpressionWithName node =
     (n_type node = FunctionExpression \<and>
      (case n_id node of
         None \<Rightarrow> False
       | Some i \<Rightarrow> id_name i \<noteq> []))"

subsection \<open>Options\<close>

text \<open>An option value of the schema: one of the strings, or an array of them.\<close>

datatype shape_setting = Str variant | Arr "variant list"

record component_options =
  namedComponents :: "shape_setting option"
  unnamedComponents :: "shape_setting option"

record rule_options = component_options +
  defaultExport :: "component_options option"

text \<open>The four lists \<^verbatim>\<open>create\<close> computes once for a file.\<close>

record config =
  namedConfig :: "variant list"
  unnamedConfig :: "variant list"
  defaultExportNamedConfig :: "variant list"
  defaultExportUnnamedConfig :: "variant list"

text \<open>\<^verbatim>\<open>[].concat(value || fallback)\<close>: a string becomes a list of one, an array is copied.\<close>

definition concat_setting :: "shape_setting option \<Rightarrow> variant \<Rightarrow> variant list" where
  "concat_setting v fallback =
     (case v of
        None \<Rightarrow> [fallback]
      | Some (Str s) \<Rightarrow> [s]
      | Some (Arr xs) \<Rightarrow> xs)"

definition create_config :: "rule_options option \<Rightarrow> config" where
  "create_config options0 =
     (let configuration =
            (case options0 of
               None \<Rightarrow> \<lparr>namedComponents = None, unnamedComponents = None, defaultExport = None\<rparr>
             | Some c \<Rightarrow> c);
          defaultExportConfig =
            (case defaultExport configuration of
               None \<Rightarrow> \<lparr>namedComponents = None, unnamedComponents = None\<rparr>
             | Some d \<Rightarrow> d)
      in \<lparr>namedConfig = concat_setting (namedComponents configuration) function_declaration,
          unnamedConfig = concat_setting (unnamedComponents configuration) function_expression,
          defaultExportNamedConfig =
            concat_setting (namedComponents defaultExportConfig) function_declaration,
          defaultExportUnnamedConfig =
            concat_setting (unnamedComponents defaultExportConfig) function_expression\<rparr>)"

text \<open>\<^verbatim>\<open>list[0]\<close>: \<^verbatim>\<open>undefined\<close> on an empty array, which the schema allows.\<close>

definition index0 :: "'a list \<Rightarrow> 'a option" where
  "index0 xs = (case xs of [] \<Rightarrow> None | x # _ \<Rightarrow> Some x)"

subsection \<open>Reporting\<close>

record fixer_options =
  opt_type :: "variant option"
  opt_template :: "string option"
  opt_range :: src_range

record report_options =
  messageId :: "variant option"
  fixerOptions :: fixer_options

text \<open>What \<^verbatim>\<open>fixer.replaceTextRange(range, text)\<close> hands to the host.\<close>

record fix_descriptor =
  fix_range :: src_range
  fix_text :: "string option"

text \<open>
  What the rule hands to \<^verbatim>\<open>context.report\<close>. The field \<open>d_fix\<close> is \<open>None\<close> when
  \<^verbatim>\<open>getFixer\<close> returns \<^verbatim>\<open>undefined\<close>; otherwise it holds what the returned callback
  yields when the host calls it: the edit, or the exception it throws.
\<close>

record diagnostic =
  d_message :: "string option"
  d_messageId :: "variant option"
  d_fix :: "(js_error + fix_descriptor) option"

text \<open>
  The callback \<^verbatim>\<open>getFixer\<close> returns, called: the object literal is evaluated key by key
  (\<^verbatim>\<open>getName\<close> may throw), then \<^verbatim>\<open>buildFunction\<close>.
\<close>

definition fixer_callback ::
  "string \<Rightarrow> fn_node \<Rightarrow> fixer_options \<Rightarrow> string option \<Rightarrow> js_error + fix_descriptor" where
  "fixer_callback source node options typeAnnotation =
     (case getName node of
        Inl e \<Rightarrow> Inl e
      | Inr name \<Rightarrow>
          (case buildFunction (opt_template options)
                  [(''typeAnnotation'', typeAnnotation),
                   (''typeParams'', getNodeText (map_option tp_range (typeParameters node)) source),
                   (''params'', getParams node source),
                   (''returnType'', getNodeText (returnType node) source),
                   (''body'', Some (getBody node source)),
                   (''name'', name)] of
             Inl e \<Rightarrow> Inl e
           | Inr text \<Rightarrow> Inr \<lparr>fix_range = opt_range options, fix_text = text\<rparr>))"

definition getFixer ::
  "string \<Rightarrow> fn_node \<Rightarrow> fixer_options \<Rightarrow> js_error + (js_error + fix_descriptor) option" where
  "getFixer source node options =
     (case getTypeAnnotation node source of
        Inl e \<Rightarrow> Inl e
      | Inr typeAnnotation \<Rightarrow>
          (if opt_type options = Some function_declaration \<and>
              (case typeAnnotation of None \<Rightarrow> False | Some t \<Rightarrow> t \<noteq> []) then Inr None
           else if opt_type options = Some arrow_function \<and> hasOneUnconstrainedTypeParam node
             then Inr None
           else if isUnfixableBecauseOfExport node then Inr None
           else if isFunctionExpressionWithName node then Inr None
           else Inr (Some (fixer_callback source node options typeAnnotation))))"

text \<open>
  \<^verbatim>\<open>report\<close>: the argument \<^verbatim>\<open>getFixer(node, options.fixerOptions)\<close> is evaluated, then the
  reporting helper is called with \<^verbatim>\<open>messages[options.messageId]\<close> and the key. When the key
  is \<^verbatim>\<open>undefined\<close> (the first element of an empty option array) the helper hands the
  host a descriptor without message, on which \<^verbatim>\<open>context.report\<close> throws: nothing is
  reported.
\<close>

definition report :: "string \<Rightarrow> fn_node \<Rightarrow> report_options \<Rightarrow> js_error + diagnostic" where
  "report source node options =
     (case getFixer source node (fixerOptions options) of
        Inl e \<Rightarrow> Inl e
      | Inr fx \<Rightarrow>
          (case messageId options of
             None \<Rightarrow> Inl TypeError
           | Some key \<Rightarrow>
               Inr \<lparr>d_message = messages (Some key),
                    d_messageId = Some key,
                    d_fix = fx\<rparr>))"

subsection \<open>Validation\<close>

text \<open>
  \<^verbatim>\<open>node.parent.parent.range\<close>, read in the named branch for a node that is no function
  declaration: there \<^verbatim>\<open>hasName\<close> has returned \<^verbatim>\<open>true\<close>, so the parent is a variable
  declarator and the first case is the one taken.
\<close>

definition parent_parent_range :: "fn_node \<Rightarrow> js_error + src_range" where
  "parent_parent_range node =
     (case parent node of
        Some (VariableDeclarator b r) \<Rightarrow> Inr r
      | _ \<Rightarrow> Inl TypeError)"

text \<open>
  \<^verbatim>\<open>applyConfig\<close>, the function local to \<^verbatim>\<open>validate\<close>. The result is what was reported:
  at most one diagnostic, since the two branches exclude each other.
\<close>

definition applyConfig ::
  "config \<Rightarrow> string \<Rightarrow> variant \<Rightarrow> fn_node \<Rightarrow> variant list \<Rightarrow> variant list
     \<Rightarrow> js_error + diagnostic option" where
  "applyConfig cfg source functionType node appliedNameConfig appliedUnnamedConfig =
     (case hasName node of
        Inl e \<Rightarrow> Inl e
      | Inr named \<Rightarrow>
          (if named \<and> functionType \<notin> set appliedNameConfig then
             (case (if n_type node = FunctionDeclaration then Inr (n_range node)
                    else parent_parent_range node) of
                Inl e \<Rightarrow> Inl e
              | Inr r \<Rightarrow>
                  map_sum id Some
                    (report source node
                       \<lparr>messageId = index0 (namedConfig cfg),
                        fixerOptions =
                          \<lparr>opt_type = index0 (namedConfig cfg),
                           opt_template = NAMED_FUNCTION_TEMPLATES (index0 (namedConfig cfg)),
                           opt_range = r\<rparr>\<rparr>))
           else if \<not> named \<and> functionType \<notin> set appliedUnnamedConfig then
             map_sum id Some
               (report source node
                  \<lparr>messageId = index0 (unnamedConfig cfg),
                   fixerOptions =
                     \<lparr>opt_type = index0 (unnamedConfig cfg),
                      opt_template = UNNAMED_FUNCTION_TEMPLATES (index0 (unnamedConfig cfg)),
                      opt_range = n_range node\<rparr>\<rparr>)
           else Inr None))"

definition validate ::
  "config \<Rightarrow> string \<Rightarrow> (fn_node \<Rightarrow> bool) \<Rightarrow> fn_node \<Rightarrow> variant
     \<Rightarrow> js_error + diagnostic option" where
  "validate cfg source components node functionType =
     (if \<not> components node then Inr None
      else if (case parent node of None \<Rightarrow> False | Some p \<Rightarrow> p = Property) then Inr None
      else if isDefaultExport node then
        applyConfig cfg source functionType node
          (defaultExportNamedConfig cfg) (defaultExportUnnamedConfig cfg)
      else applyConfig cfg source functionType node (namedConfig cfg) (unnamedConfig cfg))"

text \<open>The three visitors: each passes the shape string of its own node type.\<close>

definition visitor_functionType :: "node_type \<Rightarrow> variant" where
  "visitor_functionType t =
     (case t of
        FunctionDeclaration \<Rightarrow> function_declaration
      | ArrowFunctionExpression \<Rightarrow> arrow_function
      | FunctionExpression \<Rightarrow> function_expression)"

text \<open>
  The rule on one node of a file: \<^verbatim>\<open>create\<close> with the options, then the visitor of the
  node's type.
\<close>

definition rule ::
  "rule_options option \<Rightarrow> string \<Rightarrow> (fn_node \<Rightarrow> bool) \<Rightarrow> fn_node
     \<Rightarrow> js_error + diagnostic option" where
  "rule options0 source components node =
     validate (create_config options0) source components node
       (visitor_functionType (n_type node))"

subsection \<open>Example inputs\<close>

text \<open>
  Source texts with the nodes a parser gives for them (ranges are character offsets),
  and the two extreme answers of the component detection.
\<close>

definition all_components :: "fn_node \<Rightarrow> bool" where
  "all_components node = True"

definition no_components :: "fn_node \<Rightarrow> bool" where
  "no_components node = False"

definition add_source :: string where
  "add_source = ''const Add = (a: number, b: number): number => a + b;''"

definition add_node :: fn_node where
  "add_node =
     \<lparr>n_type = ArrowFunctionExpression, n_range = (12, 51), n_id = None,
      params = [(13, 22), (24, 33)], typeParameters = None, returnType = Some (34, 42),
      body = \<lparr>b_type = Expression, b_range = (46, 51)\<rparr>,
      parent = Some (VariableDeclarator \<lparr>bind_name = Some ''Add'', bind_typeAnnotation = None\<rparr> (0, 52))\<rparr>"

definition add_options :: "rule_options option" where
  "add_options =
     Some \<lparr>namedComponents = Some (Str function_expression), unnamedComponents = None,
           defaultExport = None\<rparr>"

definition export_source :: string where
  "export_source = ''export default function Example() { return null; }''"

definition export_node :: fn_node where
  "export_node =
     \<lparr>n_type = FunctionDeclaration, n_range = (15, 50), n_id = Some \<lparr>id_name = ''Example''\<rparr>,
      params = [], typeParameters = None, returnType = None,
      body = \<lparr>b_type = BlockStatement, b_range = (34, 50)\<rparr>,
      parent = Some ExportDefaultDeclaration\<rparr>"

definition export_options :: "rule_options option" where
  "export_options =
     Some \<lparr>namedComponents = None, unnamedComponents = None,
           defaultExport =
             Some \<lparr>namedComponents = Some (Str arrow_function), unnamedComponents = None\<rparr>\<rparr>"

definition selfnamed_source :: string where
  "selfnamed_source = ''const Example = function Example() { return null; };''"

definition selfnamed_node :: fn_node where
  "selfnamed_node =
     \<lparr>n_type = FunctionExpression, n_range = (16, 51), n_id = Some \<lparr>id_name = ''Example''\<rparr>,
      params = [], typeParameters = None, returnType = None,
      body = \<lparr>b_type = BlockStatement, b_range = (35, 51)\<rparr>,
      parent = Some (VariableDeclarator \<lparr>bind_name = Some ''Example'', bind_typeAnnotation = None\<rparr> (0, 52))\<rparr>"

definition arrow_options :: "rule_options option" where
  "arrow_options =
     Some \<lparr>namedComponents = Some (Str arrow_function), unnamedComponents = None,
           defaultExport = None\<rparr>"

definition method_source :: string where
  "method_source = ''const views = { Header: () => null };''"

definition method_node :: fn_node where
  "method_node =
     \<lparr>n_type = ArrowFunctionExpression, n_range = (24, 34), n_id = None,
      params = [], typeParameters = None, returnType = None,
      body = \<lparr>b_type = Expression, b_range = (30, 34)\<rparr>,
      parent = Some Property\<rparr>"

definition declaration_source :: string where
  "declaration_source = ''function Example() { return null; }''"

definition declaration_node :: fn_node where
  "declaration_node =
     \<lparr>n_type = FunctionDeclaration, n_range = (0, 35), n_id = Some \<lparr>id_name = ''Example''\<rparr>,
      params = [], typeParameters = None, returnType = None,
      body = \<lparr>b_type = BlockStatement, b_range = (19, 35)\<rparr>,
      parent = Some OtherParent\<rparr>"

definition double_source :: string where
  "double_source = ''const double = (x) => x * 2;''"

definition double_node :: fn_node where
  "double_node =
     \<lparr>n_type = ArrowFunctionExpression, n_range = (15, 27), n_id = None,
      params = [(16, 17)], typeParameters = None, returnType = None,
      body = \<lparr>b_type = Expression, b_range = (22, 27)\<rparr>,
      parent = Some (VariableDeclarator \<lparr>bind_name = Some ''double'', bind_typeAnnotation = None\<rparr> (0, 28))\<rparr>"

definition both_config :: config where
  "both_config =
     create_config
       (Some \<lparr>namedComponents = Some (Arr [function_declaration, arrow_function]),
              unnamedComponents = None, defaultExport = None\<rparr>)"









section \<open>Properties\<close>

subsection \<open>Auxiliary facts\<close>

lemma hasName_True_shape:
  "hasName node = Inr True \<Longrightarrow>
     n_type node = FunctionDeclaration \<or> (\<exists>b r. parent node = Some (VariableDeclarator b r))"
  by (auto simp: hasName_def split: if_splits option.splits parent_node.splits)

lemma hasName_FunctionDeclaration:
  "n_type node = FunctionDeclaration \<Longrightarrow> hasName node = Inr True"
  by (simp add: hasName_def)

lemma getTypeAnnotation_returns:
  "hasName node = Inr named \<Longrightarrow> \<exists>t. getTypeAnnotation node source = Inr t"
  by (auto simp: getTypeAnnotation_def hasName_def split: if_splits option.splits parent_node.splits)

lemma getFixer_returns:
  "hasName node = Inr named \<Longrightarrow> \<exists>fx. getFixer source node options = Inr fx"
  using getTypeAnnotation_returns [of node named source]
  by (auto simp: getFixer_def)

lemma report_returns:
  "hasName node = Inr named \<Longrightarrow> messageId options \<noteq> None \<Longrightarrow>
     \<exists>d. report source node options = Inr d \<and> d_messageId d = messageId options"
  using getFixer_returns [of node named source "fixerOptions options"]
  by (auto simp: report_def)

lemma report_messageId_Some:
  "report source node options = Inr d \<Longrightarrow> messageId options \<noteq> None"
  by (auto simp: report_def split: sum.splits option.splits)


lemma named_range_returns:
  "hasName node = Inr True \<Longrightarrow>
     \<exists>r. (if n_type node = FunctionDeclaration then Inr (n_range node)
          else parent_parent_range node) = Inr r"
  using hasName_True_shape [of node]
  by (auto simp: parent_parent_range_def)

lemma applyConfig_conforming:
  assumes "hasName node = Inr named"
    and "functionType \<in> set (if named then an else au)"
  shows "applyConfig cfg source functionType node an au = Inr None"
  using assms by (auto simp: applyConfig_def)

lemma applyConfig_nonconforming_not_None:
  assumes "hasName node = Inr named"
    and "functionType \<notin> set (if named then an else au)"
  shows "applyConfig cfg source functionType node an au \<noteq> Inr None"
proof -
  have m: "map_sum id Some x \<noteq> Inr None" for x :: "js_error + diagnostic"
    by (cases x) auto
  show ?thesis
    using assms m by (auto simp: applyConfig_def split: sum.splits if_splits)
qed

lemma applyConfig_nonconforming:
  assumes "hasName node = Inr named"
    and "functionType \<notin> set (if named then an else au)"
    and "index0 (if named then namedConfig cfg else unnamedConfig cfg) \<noteq> None"
  shows "\<exists>d. applyConfig cfg source functionType node an au = Inr (Some d)"
proof (cases named)
  case True
  with assms(1) obtain r where r:
    "(if n_type node = FunctionDeclaration then Inr (n_range node)
      else parent_parent_range node) = Inr r"
    using named_range_returns [of node] by auto
  obtain d where "report source node
      \<lparr>messageId = index0 (namedConfig cfg),
       fixerOptions = \<lparr>opt_type = index0 (namedConfig cfg),
         opt_template = NAMED_FUNCTION_TEMPLATES (index0 (namedConfig cfg)),
         opt_range = r\<rparr>\<rparr> = Inr d"
    using report_returns [OF assms(1)] True assms(3) by force
  with True assms r show ?thesis
    by (simp add: applyConfig_def)
next
  case False
  obtain d where "report source node
      \<lparr>messageId = index0 (unnamedConfig cfg),
       fixerOptions = \<lparr>opt_type = index0 (unnamedConfig cfg),
         opt_template = UNNAMED_FUNCTION_TEMPLATES (index0 (unnamedConfig cfg)),
         opt_range = n_range node\<rparr>\<rparr> = Inr d"
    using report_returns [OF assms(1)] False assms(3) by force
  with False assms show ?thesis
    by (simp add: applyConfig_def)
qed

lemma applyConfig_unnamed_unused:
  "hasName node = Inr True \<Longrightarrow>
     applyConfig cfg source functionType node an au = applyConfig cfg source functionType node an au'"
  by (simp add: applyConfig_def)

lemma applyConfig_cfg_update:
  "applyConfig (cfg\<lparr>defaultExportUnnamedConfig := u\<rparr>) source functionType node an au =
   applyConfig cfg source functionType node an au"
  by (simp add: applyConfig_def cong: sum.case_cong if_cong)

lemma getTypeAnnotation_Some_iff:
  "getTypeAnnotation node source = Inr ta \<Longrightarrow>
     (case ta of None \<Rightarrow> False | Some t \<Rightarrow> t \<noteq> []) \<longleftrightarrow>
     (n_type node \<noteq> FunctionDeclaration \<and>
      (\<exists>b r a. parent node = Some (VariableDeclarator b r) \<and> bind_typeAnnotation b = Some a \<and>
         slice source (fst a) (snd a) \<noteq> []))"
  by (auto simp: getTypeAnnotation_def hasName_def getNodeText_def
      split: if_splits option.splits parent_node.splits sum.splits)

lemma hasOneUnconstrainedTypeParam_iff:
  "hasOneUnconstrainedTypeParam node \<longleftrightarrow>
     (\<exists>tps p. typeParameters node = Some tps \<and> tp_params tps = [p] \<and> constraint p = None)"
  by (auto simp: hasOneUnconstrainedTypeParam_def split: option.splits list.splits)

lemma isDefaultExport_iff:
  "isDefaultExport node \<longleftrightarrow>
     n_type node = FunctionDeclaration \<and> parent node = Some ExportDefaultDeclaration"
  by (auto simp: isDefaultExport_def split: option.splits)

lemma isFunctionExpressionWithName_iff:
  "isFunctionExpressionWithName node \<longleftrightarrow>
     n_type node = FunctionExpression \<and> (\<exists>i. n_id node = Some i \<and> id_name i \<noteq> [])"
  by (auto simp: isFunctionExpressionWithName_def split: option.splits)

lemma getFixer_None_iff:
  assumes "getFixer source node options = Inr fx"
  shows "fx = None \<longleftrightarrow>
     (opt_type options = Some function_declaration \<and> n_type node \<noteq> FunctionDeclaration \<and>
        (\<exists>b r a. parent node = Some (VariableDeclarator b r) \<and> bind_typeAnnotation b = Some a \<and>
           slice source (fst a) (snd a) \<noteq> [])) \<or>
     (opt_type options = Some arrow_function \<and>
        (\<exists>tps p. typeParameters node = Some tps \<and> tp_params tps = [p] \<and> constraint p = None)) \<or>
     (n_type node = FunctionDeclaration \<and> parent node = Some ExportDefaultDeclaration) \<or>
     (n_type node = FunctionExpression \<and> (\<exists>i. n_id node = Some i \<and> id_name i \<noteq> []))"
proof -
  from assms obtain ta where ta: "getTypeAnnotation node source = Inr ta"
    by (auto simp: getFixer_def split: sum.splits)
  have "fx = None \<longleftrightarrow>
     (opt_type options = Some function_declaration \<and>
        (case ta of None \<Rightarrow> False | Some t \<Rightarrow> t \<noteq> [])) \<or>
     (opt_type options = Some arrow_function \<and> hasOneUnconstrainedTypeParam node) \<or>
     isDefaultExport node \<or> isFunctionExpressionWithName node"
    using assms ta
    by (auto simp: getFixer_def isUnfixableBecauseOfExport_def split: if_splits)
  then show ?thesis
    unfolding getTypeAnnotation_Some_iff [OF ta] hasOneUnconstrainedTypeParam_iff
      isDefaultExport_iff isFunctionExpressionWithName_iff .
qed

lemma getFixer_range:
  "getFixer source node options = Inr (Some (Inr f)) \<Longrightarrow> fix_range f = opt_range options"
  by (auto simp: getFixer_def fixer_callback_def split: sum.splits if_splits)

lemma report_fields:
  "report source node options = Inr d \<Longrightarrow>
     getFixer source node (fixerOptions options) = Inr (d_fix d) \<and>
     d_messageId d = messageId options \<and> d_message d = messages (messageId options)"
  by (auto simp: report_def split: sum.splits option.splits)

lemma map_sum_Some_eq:
  "map_sum id Some x = Inr (Some d) \<longleftrightarrow> x = Inr d"
  by (cases x) auto

lemma applyConfig_reported:
  assumes "applyConfig cfg source functionType node an au = Inr (Some d)"
  shows "\<exists>named options.
     hasName node = Inr named \<and> functionType \<notin> set (if named then an else au) \<and>
     report source node options = Inr d \<and>
     messageId options = index0 (if named then namedConfig cfg else unnamedConfig cfg) \<and>
     opt_type (fixerOptions options) = messageId options \<and>
     (if named \<and> n_type node \<noteq> FunctionDeclaration
      then parent_parent_range node = Inr (opt_range (fixerOptions options))
      else opt_range (fixerOptions options) = n_range node)"
proof -
  from assms obtain named where n: "hasName node = Inr named"
    by (auto simp: applyConfig_def split: sum.splits)
  show ?thesis
  proof (cases "named \<and> functionType \<notin> set an")
    case True
    with assms n obtain r where
      r: "(if n_type node = FunctionDeclaration then Inr (n_range node)
           else parent_parent_range node) = Inr r"
      and rep: "report source node
          \<lparr>messageId = index0 (namedConfig cfg),
           fixerOptions = \<lparr>opt_type = index0 (namedConfig cfg),
             opt_template = NAMED_FUNCTION_TEMPLATES (index0 (namedConfig cfg)),
             opt_range = r\<rparr>\<rparr> = Inr d"
      by (auto simp: applyConfig_def map_sum_Some_eq split: sum.splits)
    from r have "if n_type node \<noteq> FunctionDeclaration
        then parent_parent_range node = Inr r else r = n_range node"
      by (auto split: if_splits)
    with True n rep show ?thesis
      by (intro exI [of _ named] exI [of _ "\<lparr>messageId = index0 (namedConfig cfg),
           fixerOptions = \<lparr>opt_type = index0 (namedConfig cfg),
             opt_template = NAMED_FUNCTION_TEMPLATES (index0 (namedConfig cfg)),
             opt_range = r\<rparr>\<rparr>"]) auto
  next
    case False
    with assms n have u: "\<not> named" "functionType \<notin> set au"
      and rep: "report source node
          \<lparr>messageId = index0 (unnamedConfig cfg),
           fixerOptions = \<lparr>opt_type = index0 (unnamedConfig cfg),
             opt_template = UNNAMED_FUNCTION_TEMPLATES (index0 (unnamedConfig cfg)),
             opt_range = n_range node\<rparr>\<rparr> = Inr d"
      by (auto simp: applyConfig_def map_sum_Some_eq split: sum.splits if_splits)
    with n show ?thesis
      by (intro exI [of _ named] exI [of _ "\<lparr>messageId = index0 (unnamedConfig cfg),
           fixerOptions = \<lparr>opt_type = index0 (unnamedConfig cfg),
             opt_template = UNNAMED_FUNCTION_TEMPLATES (index0 (unnamedConfig cfg)),
             opt_range = n_range node\<rparr>\<rparr>"]) auto
  qed
qed

lemma validate_reported:
  assumes "validate cfg source components node functionType = Inr (Some d)"
  shows "\<exists>an au. applyConfig cfg source functionType node an au = Inr (Some d)"
  using assms by (auto simp: validate_def split: if_splits)

lemma validate_applied:
  "validate cfg source components node functionType =
     (if components node \<and> parent node \<noteq> Some Property
      then applyConfig cfg source functionType node
             (if isDefaultExport node then defaultExportNamedConfig cfg else namedConfig cfg)
             (if isDefaultExport node then defaultExportUnnamedConfig cfg else unnamedConfig cfg)
      else Inr None)"
  by (auto simp: validate_def split: option.splits)

lemmas rule_eval =
  rule_def validate_def create_config_def concat_setting_def Let_def visitor_functionType_def
  isDefaultExport_def applyConfig_def hasName_def index0_def report_def getFixer_def
  getTypeAnnotation_def getNodeText_def hasOneUnconstrainedTypeParam_def
  isUnfixableBecauseOfExport_def isFunctionExpressionWithName_def fixer_callback_def
  getName_def getParams_def getBody_def slice_def NAMED_FUNCTION_TEMPLATES_def
  UNNAMED_FUNCTION_TEMPLATES_def messages_def replace_def parent_parent_range_def
  all_components_def no_components_def

subsection \<open>The claims\<close>

text \<open>
  Claim C1. For a node that does not conform, the message key and the target shape of the
  fix are the first element of the list selected for it: the named or the unnamed list
  of the default-export pair when the node is a default export, of the general pair
  otherwise. The code takes both from the general pair in every case. On
  \<^verbatim>\<open>export default function Example() { return null; }\<close> with
  \<^verbatim>\<open>defaultExport.namedComponents\<close> set to \<^verbatim>\<open>'arrow-function'\<close> and nothing else, the
  selected list is the default-export named list, whose first element is
  \<^verbatim>\<open>'arrow-function'\<close>, and the rule reports the key \<^verbatim>\<open>'function-declaration'\<close>, the
  first element of the general named list: a function declaration is told that it is
  not a function declaration.
\<close>

theorem default_export_message_from_general_list:
  "isDefaultExport export_node \<and> hasName export_node = Inr True \<and>
   defaultExportNamedConfig (create_config export_options) = [arrow_function] \<and>
   namedConfig (create_config export_options) = [function_declaration] \<and>
   rule export_options export_source all_components export_node =
     Inr (Some \<lparr>d_message = Some ''Function component is not a function declaration'',
                d_messageId = Some function_declaration, d_fix = None\<rparr>)"
  by (simp add: rule_eval export_node_def export_source_def export_options_def)

text \<open>
  Claim C2. For every reported violation the fix is absent exactly when one of four
  conditions holds: the target is \<^verbatim>\<open>'function-declaration'\<close> and the binding of the node
  carries a type annotation whose text is not empty; the target is \<^verbatim>\<open>'arrow-function'\<close>
  and the node has exactly one type parameter, without constraint; the node is a
  default-exported function declaration; the node is a function expression with an
  identifier of its own. The target is the value the diagnostic carries as message key.
  Whether the violation is reported does not depend on these conditions: a diagnostic is
  emitted exactly when the node is a component, no property value, its shape is not in
  the list selected for it, and the general list its message key is read from has a
  first element. So under each of the four conditions the violation is still reported,
  without fix.
\<close>

theorem fix_absent_iff_guard:
  "(validate cfg source components node functionType = Inr (Some d) \<longrightarrow>
     (d_fix d = None \<longleftrightarrow>
       (d_messageId d = Some function_declaration \<and> n_type node \<noteq> FunctionDeclaration \<and>
          (\<exists>b r a. parent node = Some (VariableDeclarator b r) \<and> bind_typeAnnotation b = Some a \<and>
             slice source (fst a) (snd a) \<noteq> [])) \<or>
       (d_messageId d = Some arrow_function \<and>
          (\<exists>tps p. typeParameters node = Some tps \<and> tp_params tps = [p] \<and> constraint p = None)) \<or>
       (n_type node = FunctionDeclaration \<and> parent node = Some ExportDefaultDeclaration) \<or>
       (n_type node = FunctionExpression \<and> (\<exists>i. n_id node = Some i \<and> id_name i \<noteq> [])))) \<and>
   (hasName node = Inr named \<longrightarrow>
     ((\<exists>d'. validate cfg source components node functionType = Inr (Some d')) \<longleftrightarrow>
      components node \<and> parent node \<noteq> Some Property \<and>
      functionType \<notin> set (if isDefaultExport node
                          then (if named then defaultExportNamedConfig cfg
                                else defaultExportUnnamedConfig cfg)
                          else (if named then namedConfig cfg else unnamedConfig cfg)) \<and>
      index0 (if named then namedConfig cfg else unnamedConfig cfg) \<noteq> None))"
proof (intro conjI impI)
  assume "validate cfg source components node functionType = Inr (Some d)"
  then obtain an au where "applyConfig cfg source functionType node an au = Inr (Some d)"
    using validate_reported by blast
  then obtain options where rep: "report source node options = Inr d"
    and ty: "opt_type (fixerOptions options) = messageId options"
    using applyConfig_reported by blast
  from report_fields [OF rep] have fx: "getFixer source node (fixerOptions options) = Inr (d_fix d)"
    and mid: "d_messageId d = opt_type (fixerOptions options)"
    using ty by simp_all
  show "d_fix d = None \<longleftrightarrow>
       (d_messageId d = Some function_declaration \<and> n_type node \<noteq> FunctionDeclaration \<and>
          (\<exists>b r a. parent node = Some (VariableDeclarator b r) \<and> bind_typeAnnotation b = Some a \<and>
             slice source (fst a) (snd a) \<noteq> [])) \<or>
       (d_messageId d = Some arrow_function \<and>
          (\<exists>tps p. typeParameters node = Some tps \<and> tp_params tps = [p] \<and> constraint p = None)) \<or>
       (n_type node = FunctionDeclaration \<and> parent node = Some ExportDefaultDeclaration) \<or>
       (n_type node = FunctionExpression \<and> (\<exists>i. n_id node = Some i \<and> id_name i \<noteq> []))"
    unfolding mid by (rule getFixer_None_iff [OF fx])
next
  let ?an = "if isDefaultExport node then defaultExportNamedConfig cfg else namedConfig cfg"
  let ?au = "if isDefaultExport node then defaultExportUnnamedConfig cfg else unnamedConfig cfg"
  let ?sel = "(if isDefaultExport node
                          then (if named then defaultExportNamedConfig cfg
                                else defaultExportUnnamedConfig cfg)
                          else (if named then namedConfig cfg else unnamedConfig cfg))"
  let ?key = "index0 (if named then namedConfig cfg else unnamedConfig cfg)"
  assume n: "hasName node = Inr named"
  have sel: "(if named then ?an else ?au) = ?sel" by simp
  show "(\<exists>d'. validate cfg source components node functionType = Inr (Some d')) \<longleftrightarrow>
      components node \<and> parent node \<noteq> Some Property \<and> functionType \<notin> set ?sel \<and> ?key \<noteq> None"
  proof
    assume "\<exists>d'. validate cfg source components node functionType = Inr (Some d')"
    then obtain d' where v: "validate cfg source components node functionType = Inr (Some d')" ..
    then have c: "components node \<and> parent node \<noteq> Some Property"
      and a: "applyConfig cfg source functionType node ?an ?au = Inr (Some d')"
      by (auto simp: validate_applied split: if_splits)
    from applyConfig_reported [OF a] n obtain options where
      m: "functionType \<notin> set (if named then ?an else ?au)"
      and rep: "report source node options = Inr d'"
      and k: "messageId options = ?key"
      by auto
    from report_messageId_Some [OF rep] k have "?key \<noteq> None" by simp
    with c m sel show "components node \<and> parent node \<noteq> Some Property \<and>
        functionType \<notin> set ?sel \<and> ?key \<noteq> None"
      by simp
  next
    assume a: "components node \<and> parent node \<noteq> Some Property \<and>
        functionType \<notin> set ?sel \<and> ?key \<noteq> None"
    with sel have "functionType \<notin> set (if named then ?an else ?au)" by simp
    with a applyConfig_nonconforming [OF n, of functionType ?an ?au cfg source]
    show "\<exists>d'. validate cfg source components node functionType = Inr (Some d')"
      by (simp add: validate_applied)
  qed
qed

text \<open>The function expression of \<^verbatim>\<open>const Example = function Example() { return null; };\<close> with the target \<^verbatim>\<open>'arrow-function'\<close>: reported, without fix.\<close>

theorem fix_absent_iff_guard_witness:
  "validate (create_config arrow_options) selfnamed_source all_components selfnamed_node
     function_expression =
     Inr (Some \<lparr>d_message = Some ''Function component is not an arrow function'',
                d_messageId = Some arrow_function, d_fix = None\<rparr>) \<and>
   n_type selfnamed_node = FunctionExpression \<and>
   n_id selfnamed_node = Some \<lparr>id_name = ''Example''\<rparr> \<and>
   hasName selfnamed_node = Inr True \<and>
   all_components selfnamed_node \<and>
   function_expression \<notin> set (namedConfig (create_config arrow_options))"
  using fix_absent_iff_guard
    [of "create_config arrow_options" selfnamed_source all_components selfnamed_node
        function_expression
        "\<lparr>d_message = Some ''Function component is not an arrow function'',
          d_messageId = Some arrow_function, d_fix = None\<rparr>" True]
  by (simp add: rule_eval selfnamed_node_def selfnamed_source_def arrow_options_def)

text \<open>
  Claim C3. A node whose shape is a member of the list selected for it (the named or the
  unnamed list, of the default-export pair for a default export and of the general pair
  otherwise) gets no diagnostic, wherever in the list the shape stands. For a component
  that is no property value the converse holds too: no diagnostic exactly when the shape
  is in the set of the list's elements.
\<close>

theorem conforming_no_violation:
  assumes "hasName node = Inr named"
  shows "(functionType \<in> set (if isDefaultExport node
                          then (if named then defaultExportNamedConfig cfg
                                else defaultExportUnnamedConfig cfg)
                          else (if named then namedConfig cfg else unnamedConfig cfg))
          \<longrightarrow> validate cfg source components node functionType = Inr None) \<and>
         (components node \<and> parent node \<noteq> Some Property \<longrightarrow>
           (validate cfg source components node functionType = Inr None \<longleftrightarrow>
            functionType \<in> set (if isDefaultExport node
                          then (if named then defaultExportNamedConfig cfg
                                else defaultExportUnnamedConfig cfg)
                          else (if named then namedConfig cfg else unnamedConfig cfg))))"
proof -
  let ?an = "if isDefaultExport node then defaultExportNamedConfig cfg else namedConfig cfg"
  let ?au = "if isDefaultExport node then defaultExportUnnamedConfig cfg else unnamedConfig cfg"
  let ?sel = "if isDefaultExport node
                          then (if named then defaultExportNamedConfig cfg
                                else defaultExportUnnamedConfig cfg)
                          else (if named then namedConfig cfg else unnamedConfig cfg)"
  have sel: "?sel = (if named then ?an else ?au)" by simp
  have a: "functionType \<in> set ?sel \<Longrightarrow> applyConfig cfg source functionType node ?an ?au = Inr None"
    using applyConfig_conforming [OF assms, of functionType ?an ?au cfg source] sel by simp
  have b: "functionType \<notin> set ?sel \<Longrightarrow> applyConfig cfg source functionType node ?an ?au \<noteq> Inr None"
    using applyConfig_nonconforming_not_None [OF assms, of functionType ?an ?au cfg source] sel
    by simp
  have v: "components node \<Longrightarrow> parent node \<noteq> Some Property \<Longrightarrow>
      validate cfg source components node functionType = applyConfig cfg source functionType node ?an ?au"
    by (auto simp: validate_def split: option.splits)
  have w: "validate cfg source components node functionType = Inr None \<or>
      validate cfg source components node functionType = applyConfig cfg source functionType node ?an ?au"
    by (auto simp: validate_def split: option.splits)
  show ?thesis
  proof (intro conjI impI)
    assume "functionType \<in> set ?sel"
    with a w show "validate cfg source components node functionType = Inr None" by auto
  next
    assume "components node \<and> parent node \<noteq> Some Property"
    with v have e: "validate cfg source components node functionType = applyConfig cfg source functionType node ?an ?au" by simp
    show "validate cfg source components node functionType = Inr None \<longleftrightarrow> functionType \<in> set ?sel"
      using a b e by (cases "functionType \<in> set ?sel") auto
  qed
qed

text \<open>The arrow function \<^verbatim>\<open>Add\<close> under \<^verbatim>\<open>namedComponents: ['function-declaration', 'arrow-function']\<close>: its shape is the second element.\<close>

theorem conforming_no_violation_witness:
  "hasName add_node = Inr True \<and>
   namedConfig both_config = [function_declaration, arrow_function] \<and>
   validate both_config add_source all_components add_node arrow_function = Inr None"
  using conforming_no_violation
    [of add_node True arrow_function both_config add_source all_components]
  by (simp add: add_node_def both_config_def hasName_def isDefaultExport_def create_config_def
      concat_setting_def Let_def)

text \<open>
  Claim C4, as amended. For the arrow function of
  \<^verbatim>\<open>const Add = (a: number, b: number): number => a + b;\<close> and the target
  \<^verbatim>\<open>'function-expression'\<close>, with the named template of that target and the range of the
  statement, the fix synthesis yields the replacement text
  \<^verbatim>\<open>var Add = function(a: number, b: number): number {\<close>, a line feed, two spaces and
  \<^verbatim>\<open>return a + b\<close>, a line feed, and \<^verbatim>\<open>}\<close>: the expression body is wrapped in a block of
  three lines. The statement is about \<^verbatim>\<open>getFixer\<close> and \<^verbatim>\<open>getBody\<close>, which do not ask whether
  the node is a component.
\<close>

theorem add_example_replacement:
  "getFixer add_source add_node
     \<lparr>opt_type = Some function_expression,
      opt_template = NAMED_FUNCTION_TEMPLATES (Some function_expression),
      opt_range = (0, 52)\<rparr> =
     Inr (Some (Inr \<lparr>fix_range = (0, 52),
       fix_text = Some (''var Add = function(a: number, b: number): number {'' @
         [CHR 0x0A] @ ''  return a + b'' @ [CHR 0x0A] @ ''}'')\<rparr>)) \<and>
   getBody add_node add_source = ''{'' @ [CHR 0x0A] @ ''  return a + b'' @ [CHR 0x0A] @ ''}''"
  by (simp add: rule_eval add_node_def add_source_def)

text \<open>
  Claim C4 as the specification states it, with the block on one line,
  \<^verbatim>\<open>{ return a + b }\<close>: the text synthesized for that node and target is another one.
\<close>

theorem add_example_counterexample:
  "getFixer add_source add_node
     \<lparr>opt_type = Some function_expression,
      opt_template = NAMED_FUNCTION_TEMPLATES (Some function_expression),
      opt_range = (0, 52)\<rparr> =
     Inr (Some (Inr \<lparr>fix_range = (0, 52),
       fix_text = Some (''var Add = function(a: number, b: number): number {'' @
         [CHR 0x0A] @ ''  return a + b'' @ [CHR 0x0A] @ ''}'')\<rparr>)) \<and>
   ''var Add = function(a: number, b: number): number {'' @
         [CHR 0x0A] @ ''  return a + b'' @ [CHR 0x0A] @ ''}'' \<noteq>
   ''var Add = function(a: number, b: number): number { return a + b }''"
  by (simp add: rule_eval add_node_def add_source_def)

text \<open>
  Claim C5. When a fix is offered and yields an edit, the edit's range is the node's own
  range for a function declaration, and the range of the enclosing variable declaration
  statement for an arrow function or function expression that initialises a variable
  declarator.
\<close>

theorem fix_replacement_range:
  assumes "validate cfg source components node functionType = Inr (Some d)"
    and "d_fix d = Some (Inr fx)"
  shows "(n_type node = FunctionDeclaration \<longrightarrow> fix_range fx = n_range node) \<and>
         (\<forall>b r. n_type node \<noteq> FunctionDeclaration \<and> parent node = Some (VariableDeclarator b r)
            \<longrightarrow> fix_range fx = r)"
proof -
  from assms(1) obtain an au where "applyConfig cfg source functionType node an au = Inr (Some d)"
    using validate_reported by blast
  then obtain named options where n: "hasName node = Inr named"
    and rep: "report source node options = Inr d"
    and rg: "if named \<and> n_type node \<noteq> FunctionDeclaration
      then parent_parent_range node = Inr (opt_range (fixerOptions options))
      else opt_range (fixerOptions options) = n_range node"
    using applyConfig_reported by blast
  from report_fields [OF rep] assms(2)
  have "getFixer source node (fixerOptions options) = Inr (Some (Inr fx))" by simp
  then have fr: "fix_range fx = opt_range (fixerOptions options)" by (rule getFixer_range)
  show ?thesis
  proof (intro conjI impI allI)
    assume "n_type node = FunctionDeclaration"
    with rg fr show "fix_range fx = n_range node" by simp
  next
    fix b r
    assume p: "n_type node \<noteq> FunctionDeclaration \<and> parent node = Some (VariableDeclarator b r)"
    with n have "named" by (auto simp: hasName_def)
    with p rg have "parent_parent_range node = Inr (opt_range (fixerOptions options))" by simp
    with p fr show "fix_range fx = r" by (simp add: parent_parent_range_def)
  qed
qed

text \<open>The arrow function \<^verbatim>\<open>Add\<close>, whose edit covers the statement, and the declaration \<^verbatim>\<open>function Example() { return null; }\<close>, whose edit covers the node.\<close>

theorem fix_replacement_range_witness:
  "validate (create_config add_options) add_source all_components add_node arrow_function =
     Inr (Some \<lparr>d_message = Some ''Function component is not a function expression'',
                d_messageId = Some function_expression,
                d_fix = Some (Inr \<lparr>fix_range = (0, 52),
                  fix_text = Some (''var Add = function(a: number, b: number): number {'' @
                    [CHR 0x0A] @ ''  return a + b'' @ [CHR 0x0A] @ ''}'')\<rparr>)\<rparr>) \<and>
   parent add_node =
     Some (VariableDeclarator \<lparr>bind_name = Some ''Add'', bind_typeAnnotation = None\<rparr> (0, 52)) \<and>
   validate (create_config arrow_options) declaration_source all_components declaration_node
     function_declaration =
     Inr (Some \<lparr>d_message = Some ''Function component is not an arrow function'',
                d_messageId = Some arrow_function,
                d_fix = Some (Inr \<lparr>fix_range = (0, 35),
                  fix_text = Some ''var Example = () => { return null; }''\<rparr>)\<rparr>) \<and>
   n_range declaration_node = (0, 35)"
  using fix_replacement_range
    [of "create_config add_options" add_source all_components add_node arrow_function
        "\<lparr>d_message = Some ''Function component is not a function expression'',
                d_messageId = Some function_expression,
                d_fix = Some (Inr \<lparr>fix_range = (0, 52),
                  fix_text = Some (''var Add = function(a: number, b: number): number {'' @
                    [CHR 0x0A] @ ''  return a + b'' @ [CHR 0x0A] @ ''}'')\<rparr>)\<rparr>"
        "\<lparr>fix_range = (0, 52),
                  fix_text = Some (''var Add = function(a: number, b: number): number {'' @
                    [CHR 0x0A] @ ''  return a + b'' @ [CHR 0x0A] @ ''}'')\<rparr>"]
    fix_replacement_range
    [of "create_config arrow_options" declaration_source all_components declaration_node
        function_declaration
        "\<lparr>d_message = Some ''Function component is not an arrow function'',
                d_messageId = Some arrow_function,
                d_fix = Some (Inr \<lparr>fix_range = (0, 35),
                  fix_text = Some ''var Example = () => { return null; }''\<rparr>)\<rparr>"
        "\<lparr>fix_range = (0, 35), fix_text = Some ''var Example = () => { return null; }''\<rparr>"]
  by (simp add: rule_eval add_node_def add_source_def add_options_def arrow_options_def
      declaration_node_def declaration_source_def)




text \<open>
  Claim C7. Without options the named list is \<^verbatim>\<open>['function-declaration']\<close> and the
  unnamed list is \<^verbatim>\<open>['function-expression']\<close>, for the general pair and for the
  default-export pair; each of the four falls back to its constant on its own, whatever
  the other options are. An option that is given decides its list: a string \<open>v\<close> gives
  the list \<open>[v]\<close>, an array gives the list of its elements, so a string gives the same
  list as the array of that one string.
\<close>

theorem default_configuration:
  "create_config None =
     \<lparr>namedConfig = [function_declaration], unnamedConfig = [function_expression],
      defaultExportNamedConfig = [function_declaration],
      defaultExportUnnamedConfig = [function_expression]\<rparr> \<and>
   create_config (Some \<lparr>namedComponents = None, unnamedComponents = None, defaultExport = None\<rparr>) =
     create_config None \<and>
   namedConfig (create_config (Some (opts\<lparr>namedComponents := None\<rparr>))) = [function_declaration] \<and>
   unnamedConfig (create_config (Some (opts\<lparr>unnamedComponents := None\<rparr>))) = [function_expression] \<and>
   defaultExportNamedConfig (create_config (Some (opts\<lparr>defaultExport := None\<rparr>))) =
     [function_declaration] \<and>
   defaultExportUnnamedConfig (create_config (Some (opts\<lparr>defaultExport := None\<rparr>))) =
     [function_expression] \<and>
   defaultExportNamedConfig
     (create_config (Some (opts\<lparr>defaultExport := Some (d\<lparr>namedComponents := None\<rparr>)\<rparr>))) =
     [function_declaration] \<and>
   defaultExportUnnamedConfig
     (create_config (Some (opts\<lparr>defaultExport := Some (d\<lparr>unnamedComponents := None\<rparr>)\<rparr>))) =
     [function_expression] \<and>
   concat_setting (Some (Str v)) fallback = concat_setting (Some (Arr [v])) fallback \<and>
   create_config
     (Some \<lparr>namedComponents = Some (Str a), unnamedComponents = Some (Str b),
            defaultExport = Some \<lparr>namedComponents = Some (Str c), unnamedComponents = Some (Str e)\<rparr>\<rparr>) =
   create_config
     (Some \<lparr>namedComponents = Some (Arr [a]), unnamedComponents = Some (Arr [b]),
            defaultExport =
              Some \<lparr>namedComponents = Some (Arr [c]), unnamedComponents = Some (Arr [e])\<rparr>\<rparr>) \<and>
   concat_setting None fallback = [fallback] \<and>
   concat_setting (Some (Str v)) fallback = [v] \<and>
   concat_setting (Some (Arr vs)) fallback = vs \<and>
   namedConfig (create_config (Some (opts\<lparr>namedComponents := Some (Str v)\<rparr>))) = [v] \<and>
   namedConfig (create_config (Some (opts\<lparr>namedComponents := Some (Arr vs)\<rparr>))) = vs \<and>
   unnamedConfig (create_config (Some (opts\<lparr>unnamedComponents := Some (Str v)\<rparr>))) = [v] \<and>
   unnamedConfig (create_config (Some (opts\<lparr>unnamedComponents := Some (Arr vs)\<rparr>))) = vs \<and>
   defaultExportNamedConfig
     (create_config (Some (opts\<lparr>defaultExport := Some (d\<lparr>namedComponents := Some (Str v)\<rparr>)\<rparr>))) =
     [v] \<and>
   defaultExportNamedConfig
     (create_config (Some (opts\<lparr>defaultExport := Some (d\<lparr>namedComponents := Some (Arr vs)\<rparr>)\<rparr>))) =
     vs \<and>
   defaultExportUnnamedConfig
     (create_config (Some (opts\<lparr>defaultExport := Some (d\<lparr>unnamedComponents := Some (Str v)\<rparr>)\<rparr>))) =
     [v] \<and>
   defaultExportUnnamedConfig
     (create_config (Some (opts\<lparr>defaultExport := Some (d\<lparr>unnamedComponents := Some (Arr vs)\<rparr>)\<rparr>))) =
     vs \<and>
   create_config
     (Some \<lparr>namedComponents = Some (Arr ns), unnamedComponents = Some (Arr us),
            defaultExport =
              Some \<lparr>namedComponents = Some (Arr dns), unnamedComponents = Some (Arr dus)\<rparr>\<rparr>) =
     \<lparr>namedConfig = ns, unnamedConfig = us,
      defaultExportNamedConfig = dns, defaultExportUnnamedConfig = dus\<rparr> \<and>
   create_config
     (Some \<lparr>namedComponents = Some (Str a), unnamedComponents = Some (Str b),
            defaultExport = Some \<lparr>namedComponents = Some (Str c), unnamedComponents = Some (Str e)\<rparr>\<rparr>) =
     \<lparr>namedConfig = [a], unnamedConfig = [b],
      defaultExportNamedConfig = [c], defaultExportUnnamedConfig = [e]\<rparr>"
  by (simp add: create_config_def concat_setting_def Let_def)

text \<open>
  Claim C8. A function node whose parent is an object-literal property gets no
  diagnostic, under every configuration.
\<close>

theorem property_parent_no_diagnostic:
  "parent node = Some Property \<Longrightarrow>
     validate cfg source components node functionType = Inr None \<and>
     rule options0 source components node = Inr None"
  by (simp add: validate_def rule_def)

text \<open>The arrow function that is the value of \<^verbatim>\<open>Header\<close> in \<^verbatim>\<open>const views = { Header: () => null };\<close>.\<close>

theorem property_parent_no_diagnostic_witness:
  "parent method_node = Some Property \<and>
   validate (create_config None) method_source all_components method_node arrow_function = Inr None \<and>
   rule None method_source all_components method_node = Inr None"
  using property_parent_no_diagnostic
    [of method_node "create_config None" method_source all_components arrow_function None]
  by (simp add: method_node_def)

text \<open>
  Claim C9. A function node that the component detection does not recognise gets no
  diagnostic, and so no fix, whatever its shape and the configuration.
\<close>

theorem not_component_no_diagnostic:
  "\<not> components node \<Longrightarrow>
     validate cfg source components node functionType = Inr None \<and>
     rule options0 source components node = Inr None"
  by (simp add: validate_def rule_def)

text \<open>The arrow function of \<^verbatim>\<open>const double = (x) => x * 2;\<close>, which is no component.\<close>

theorem not_component_no_diagnostic_witness:
  "\<not> no_components double_node \<and>
   validate (create_config None) double_source no_components double_node arrow_function = Inr None \<and>
   rule None double_source no_components double_node = Inr None"
  using not_component_no_diagnostic
    [of no_components double_node "create_config None" double_source arrow_function None]
  by (simp add: no_components_def)

text \<open>
  Claim C10. A default export is a function declaration and so counts as named; the
  unnamed list of the default-export pair is never consulted. Changing it, in the
  computed configuration or through the option \<^verbatim>\<open>defaultExport.unnamedComponents\<close>,
  changes nothing the rule reports on any node.
\<close>

theorem default_export_unnamed_config_unused:
  "(isDefaultExport node \<longrightarrow> n_type node = FunctionDeclaration \<and> hasName node = Inr True) \<and>
   validate (cfg\<lparr>defaultExportUnnamedConfig := u\<rparr>) source components node functionType =
     validate cfg source components node functionType \<and>
   rule (Some (opts\<lparr>defaultExport := Some (d\<lparr>unnamedComponents := x\<rparr>)\<rparr>)) source components node =
     rule (Some (opts\<lparr>defaultExport := Some d\<rparr>)) source components node"
proof -
  have n: "isDefaultExport node \<Longrightarrow> n_type node = FunctionDeclaration \<and> hasName node = Inr True"
    by (simp add: isDefaultExport_def hasName_def)
  have v: "validate (c\<lparr>defaultExportUnnamedConfig := w\<rparr>) source components node ft =
     validate c source components node ft" for c w ft
    using applyConfig_unnamed_unused [of node c source ft "defaultExportNamedConfig c" w "defaultExportUnnamedConfig c"] n
    by (simp add: validate_def applyConfig_cfg_update)
  have c: "create_config (Some (opts\<lparr>defaultExport := Some (d\<lparr>unnamedComponents := x\<rparr>)\<rparr>)) =
      (create_config (Some (opts\<lparr>defaultExport := Some d\<rparr>)))
        \<lparr>defaultExportUnnamedConfig := concat_setting x function_expression\<rparr>"
    by (simp add: create_config_def Let_def)
  show ?thesis
    using n v c by (simp add: rule_def)
qed

text \<open>The default-exported declaration \<^verbatim>\<open>Example\<close>.\<close>

theorem default_export_unnamed_config_unused_witness:
  "isDefaultExport export_node \<and> n_type export_node = FunctionDeclaration \<and>
   hasName export_node = Inr True \<and>
   validate ((create_config export_options)\<lparr>defaultExportUnnamedConfig := [arrow_function]\<rparr>)
     export_source all_components export_node function_declaration =
   validate (create_config export_options)
     export_source all_components export_node function_declaration"
  using default_export_unnamed_config_unused
    [where node = export_node and cfg = "create_config export_options"
       and u = "[arrow_function]" and source = export_source
       and components = all_components and functionType = function_declaration]
  by (simp add: export_node_def isDefaultExport_def)

end
